theory Spec2Isabelle
  imports Complex_Main "HOL-Library.AList" "HOL-Library.Sublist"
begin

section \<open>Python values\<close>

text \<open>
  The hook in \<^verbatim>\<open>hooks/tk-multi-shotgunpanel/unity_actions.py\<close> handles untyped Python
  data: Shotgun entity dictionaries, action parameters, configuration settings. The
  values that the two methods inspect are modelled by \<open>pyval\<close>. A dictionary is an
  association list: \<open>dict_get\<close> is \<^verbatim>\<open>d.get(k)\<close>, \<open>dict_set\<close> is \<^verbatim>\<open>d[k] = v\<close> (an existing
  key keeps its place, a new key goes to the end), and the empty list is the empty
  dictionary. Equality of two association lists implies equality of the dictionaries
  in Python. Floats do not occur among these values; the floats of the editor are
  modelled further below.
\<close>

datatype pyval =
    PyNone
  | PyBool bool
  | PyInt int
  | PyStr string
  | PyDict "(string \<times> pyval) list"

type_synonym pydict = "(string \<times> pyval) list"

text \<open>Truth value testing, as \<^verbatim>\<open>if not x\<close> applies it.\<close>

fun truthy :: "pyval \<Rightarrow> bool" where
  "truthy PyNone = False"
| "truthy (PyBool b) = b"
| "truthy (PyInt n) = (n \<noteq> 0)"
| "truthy (PyStr s) = (s \<noteq> [])"
| "truthy (PyDict d) = (d \<noteq> [])"

definition dict_get :: "pydict \<Rightarrow> string \<Rightarrow> pyval" where
  "dict_get d k = (case map_of d k of None \<Rightarrow> PyNone | Some v \<Rightarrow> v)"

definition dict_set :: "pydict \<Rightarrow> string \<Rightarrow> pyval \<Rightarrow> pydict" where
  "dict_set d k v = AList.update k v d"

section \<open>Action descriptors\<close>

text \<open>
  An action descriptor is the dictionary with keys \<^verbatim>\<open>name\<close>, \<^verbatim>\<open>params\<close>, \<^verbatim>\<open>group\<close>,
  \<^verbatim>\<open>caption\<close> and \<^verbatim>\<open>description\<close> that \<^verbatim>\<open>generate_actions\<close> returns in a list.
\<close>

record descriptor =
  action_name :: string
  action_params :: pyval
  action_group :: string
  action_caption :: string
  action_description :: string

section \<open>The collaborators of generate\_actions\<close>

text \<open>
  \<^verbatim>\<open>generate_actions\<close> calls four things it does not define: the same method of the hook
  base class, the application settings, and three functions of the module
  \<^verbatim>\<open>unity_metadata\<close>. They are parameters of the model. The metadata resolver returns
  \<^verbatim>\<open>None\<close> or a dictionary; the two \<^verbatim>\<open>relates_to\<close> functions are used as conditions only.
\<close>

record gen_env =
  super_generate_actions :: "pyval \<Rightarrow> string list \<Rightarrow> string \<Rightarrow> descriptor list"
  settings :: pydict
  get_metadata_from_entity :: "pyval \<Rightarrow> pydict option"
  relates_to_current_project :: "pydict \<Rightarrow> bool"
  relates_to_existing_scene :: "pydict \<Rightarrow> bool"

text \<open>
  The calls made to the collaborators are recorded in the order in which the method
  makes them, so that a statement such as "the resolver is not consulted" can be made.
  The last two constructors are the read \<^verbatim>\<open>metadata.get(k)\<close> and the item assignment
  \<^verbatim>\<open>metadata[k] = v\<close> on the dictionary that the resolver returned: the source assigns
  to that object itself and takes no copy of it.
\<close>

datatype gen_call =
    Logger_debug string "string list" pyval
  | Super_generate_actions pyval "string list" string
  | Settings_get string
  | Get_metadata_from_entity pyval
  | Relates_to_current_project pydict
  | Relates_to_existing_scene pydict
  | Metadata_get string
  | Metadata_setitem string pyval

definition jump_to_frame_action :: "pydict \<Rightarrow> descriptor" where
  "jump_to_frame_action metadata =
     \<lparr> action_name = ''jump_to_frame'',
       action_params = PyDict metadata,
       action_group = ''Jump to Frame'',
       action_caption = ''Jump to Frame'',
       action_description =
         ''Opens the associated Unity scene and scrubs to the associated frame.'' \<rparr>"

text \<open>
  \<^verbatim>\<open>generate_actions(self, sg_data, actions, ui_area)\<close>. The result is the list of calls
  made and the list returned. Each early \<^verbatim>\<open>return action_instances\<close> of the source is a
  branch that returns the base-class list.
\<close>

definition generate_actions ::
  "gen_env \<Rightarrow> pyval \<Rightarrow> string list \<Rightarrow> string \<Rightarrow> gen_call list \<times> descriptor list" where
  "generate_actions env sg_data actions ui_area =
    (let t0 = [Logger_debug ui_area actions sg_data,
               Super_generate_actions sg_data actions ui_area];
         action_instances = super_generate_actions env sg_data actions ui_area
     in
     if ''jump_to_frame'' \<notin> set actions then (t0, action_instances)
     else
       (let main_timeline_tag = dict_get (settings env) ''main_timeline_tag'';
            t1 = t0 @ [Settings_get ''main_timeline_tag'']
        in
        if \<not> truthy main_timeline_tag then (t1, action_instances)
        else
          (let t2 = t1 @ [Get_metadata_from_entity sg_data] in
           (case get_metadata_from_entity env sg_data of
              None \<Rightarrow> (t2, action_instances)
            | Some metadata \<Rightarrow>
                if metadata = [] then (t2, action_instances)
                else
                  (let t3 = t2 @ [Relates_to_current_project metadata] in
                   if \<not> relates_to_current_project env metadata then (t3, action_instances)
                   else
                     (let t4 = t3 @ [Relates_to_existing_scene metadata] in
                      if \<not> relates_to_existing_scene env metadata then (t4, action_instances)
                      else
                        (let t5 = t4 @ [Metadata_get ''frame_number''] in
                         if \<not> truthy (dict_get metadata ''frame_number'')
                         then (t5, action_instances)
                         else
                           (t5 @ [Metadata_setitem ''main_timeline_tag'' main_timeline_tag],
                            action_instances
                              @ [jump_to_frame_action
                                   (dict_set metadata ''main_timeline_tag''
                                      main_timeline_tag)]))))))))"

text \<open>
  The eligibility conditions as the specification states them, read off the
  environment without running the method: the action is requested, the configured tag
  is truthy, the resolver returns a non-empty dictionary, the dictionary relates to
  the current project and to an existing scene, and it contains a non-empty
  \<^verbatim>\<open>frame_number\<close>. A value is non-empty when it is there and is not an empty string or
  container; a number is a value that is there, also the number zero. The zero numbers
  are the values on which this and the truth test of line 75 differ.
\<close>

fun non_empty :: "pyval \<Rightarrow> bool" where
  "non_empty PyNone = False"
| "non_empty (PyBool b) = True"
| "non_empty (PyInt n) = True"
| "non_empty (PyStr s) = (s \<noteq> [])"
| "non_empty (PyDict d) = (d \<noteq> [])"

fun zero_number :: "pyval \<Rightarrow> bool" where
  "zero_number (PyInt n) = (n = 0)"
| "zero_number (PyBool b) = (\<not> b)"
| "zero_number _ = False"

definition eligible :: "gen_env \<Rightarrow> pyval \<Rightarrow> string list \<Rightarrow> bool" where
  "eligible env sg_data actions =
    (''jump_to_frame'' \<in> set actions \<and>
     truthy (dict_get (settings env) ''main_timeline_tag'') \<and>
     (case get_metadata_from_entity env sg_data of
        None \<Rightarrow> False
      | Some metadata \<Rightarrow>
          metadata \<noteq> [] \<and>
          relates_to_current_project env metadata \<and>
          relates_to_existing_scene env metadata \<and>
          non_empty (dict_get metadata ''frame_number'')))"

section \<open>Exceptions and the conversions of execute\_action\<close>

text \<open>
  Every \<^verbatim>\<open>raise\<close> is a value: a method returns \<open>Inl e\<close> when the exception \<open>e\<close> leaves it
  and \<open>Inr\<close> of its result otherwise. \<open>HostException\<close> is an exception raised by a call
  into the Unity editor, with the message the editor gave it.
\<close>

datatype exn =
    KeyError string
  | TypeError
  | ValueError
  | AttributeError
  | IndexError
  | ZeroDivisionError
  | OverflowError
  | HostException string

text \<open>\<^verbatim>\<open>obj[k]\<close>: only a dictionary can be subscripted with a string key.\<close>

fun py_getitem :: "pyval \<Rightarrow> string \<Rightarrow> exn + pyval" where
  "py_getitem (PyDict d) k =
     (case map_of d k of None \<Rightarrow> Inl (KeyError k) | Some v \<Rightarrow> Inr v)"
| "py_getitem _ k = Inl TypeError"

text \<open>\<^verbatim>\<open>obj.get(k)\<close>: only a dictionary has the method.\<close>

fun py_get :: "pyval \<Rightarrow> string \<Rightarrow> exn + pyval" where
  "py_get (PyDict d) k = Inr (dict_get d k)"
| "py_get _ k = Inl AttributeError"

text \<open>
  \<^verbatim>\<open>int(x)\<close>. A string is read as a decimal literal: blanks around it are dropped, a
  sign may come first, and at least one digit follows. The additions of particular
  Python versions (digit separators, a blank after the sign) are left out.
\<close>

definition is_space :: "char \<Rightarrow> bool" where
  "is_space c = (c \<in> set [CHR '' '', CHR 0x09, CHR 0x0A, CHR 0x0B, CHR 0x0C, CHR 0x0D])"

definition strip :: "string \<Rightarrow> string" where
  "strip s = rev (dropWhile is_space (rev (dropWhile is_space s)))"

definition digit_value :: "char \<Rightarrow> nat option" where
  "digit_value c =
     (let n = (of_char c :: nat) in if 48 \<le> n \<and> n \<le> 57 then Some (n - 48) else None)"

fun digits_value :: "nat \<Rightarrow> string \<Rightarrow> nat option" where
  "digits_value acc [] = Some acc"
| "digits_value acc (c # cs) =
     (case digit_value c of None \<Rightarrow> None | Some d \<Rightarrow> digits_value (10 * acc + d) cs)"

definition int_literal :: "string \<Rightarrow> int option" where
  "int_literal s =
     (case strip s of
        [] \<Rightarrow> None
      | c # cs \<Rightarrow>
          if c = CHR ''-'' then
            (if cs = [] then None else map_option (\<lambda>n. - int n) (digits_value 0 cs))
          else if c = CHR ''+'' then
            (if cs = [] then None else map_option int (digits_value 0 cs))
          else map_option int (digits_value 0 (c # cs)))"

fun py_int :: "pyval \<Rightarrow> exn + int" where
  "py_int (PyInt n) = Inr n"
| "py_int (PyBool b) = Inr (if b then 1 else 0)"
| "py_int (PyStr s) = (case int_literal s of None \<Rightarrow> Inl ValueError | Some n \<Rightarrow> Inr n)"
| "py_int PyNone = Inl TypeError"
| "py_int (PyDict d) = Inl TypeError"

text \<open>
  An argument passed to an editor method that takes a string: \<^verbatim>\<open>None\<close> is passed as the
  null reference, a Python string as itself, and nothing else is accepted.
\<close>

fun to_host_string :: "pyval \<Rightarrow> exn + string option" where
  "to_host_string PyNone = Inr None"
| "to_host_string (PyStr s) = Inr (Some s)"
| "to_host_string _ = Inl TypeError"

text \<open>\<^verbatim>\<open>'{}'.format(x)\<close> for such an argument.\<close>

fun format_arg :: "string option \<Rightarrow> string" where
  "format_arg None = ''None''"
| "format_arg (Some s) = s"

section \<open>Python floats\<close>

text \<open>
  A Python float is an IEEE 754 double: a finite number, an infinity or a NaN. A finite
  double is modelled by the real number it denotes, so that the two zeros are one
  value. \<open>round_binary64\<close> rounds a real number to the nearest number of the form
  \<open>m * 2 ^ k\<close> with a significand of 53 bits and \<open>k\<close> no less than -1074, a tie going
  to the even significand; \<open>quantum\<close> is the distance \<open>2 ^ k\<close> of such numbers around
  \<open>x\<close>. A result of magnitude \<open>2 ^ 1024\<close> or more is out of range.
\<close>

datatype pyfloat = Finite real | PosInf | NegInf | NaN

definition round_half_even :: "real \<Rightarrow> int" where
  "round_half_even y =
     (let f = \<lfloor>y\<rfloor>; r = y - of_int f in
      if r < 1/2 then f else if 1/2 < r then f + 1 else if even f then f else f + 1)"

definition quantum :: "real \<Rightarrow> real" where
  "quantum x = 2 powi (max \<lfloor>log 2 \<bar>x\<bar>\<rfloor> (- 1022) - 52)"

definition round_binary64 :: "real \<Rightarrow> real" where
  "round_binary64 x =
     (if x = 0 then 0 else of_int (round_half_even (x / quantum x)) * quantum x)"

text \<open>
  The conversion of a Python integer to a float, which raises \<^verbatim>\<open>OverflowError\<close> when the
  rounded value is out of range.
\<close>

definition float_of_int :: "int \<Rightarrow> exn + real" where
  "float_of_int n =
     (let r = round_binary64 (of_int n) in
      if 2 ^ 1024 \<le> \<bar>r\<bar> then Inl OverflowError else Inr r)"

text \<open>The result of an arithmetic operation on floats: out of range, it is an infinity.\<close>

definition float_of_real :: "real \<Rightarrow> pyfloat" where
  "float_of_real x =
     (let r = round_binary64 x in
      if 2 ^ 1024 \<le> r then PosInf else if r \<le> - (2 ^ 1024) then NegInf else Finite r)"

text \<open>
  \<^verbatim>\<open>n / y\<close> for an integer \<open>n\<close> and a float \<open>y\<close>: the integer is converted, a zero
  divisor raises \<^verbatim>\<open>ZeroDivisionError\<close>, and the quotient is rounded.
\<close>

definition py_truediv :: "int \<Rightarrow> pyfloat \<Rightarrow> exn + pyfloat" where
  "py_truediv n y =
     (case float_of_int n of
        Inl e \<Rightarrow> Inl e
      | Inr a \<Rightarrow>
          (case y of
             Finite b \<Rightarrow>
               if b = 0 then Inl ZeroDivisionError else Inr (float_of_real (a / b))
           | PosInf \<Rightarrow> Inr (Finite 0)
           | NegInf \<Rightarrow> Inr (Finite 0)
           | NaN \<Rightarrow> Inr NaN))"

section \<open>The host editor\<close>

text \<open>
  Objects of the editor are handles. The record \<open>host\<close> gives the answer of the editor
  to each call that \<^verbatim>\<open>execute_action\<close> makes during one run; any call may raise. The
  effect of the method on the editor is the sequence of calls it makes, kept in
  \<open>host_calls\<close>; the messages given to \<^verbatim>\<open>app.logger\<close> are kept in \<open>logged\<close>.
\<close>

datatype game_object = GameObject nat
datatype director = PlayableDirector nat
datatype timeline = TimelineAsset nat

record host =
  OpenScene :: "string option \<Rightarrow> exn option"
  ExecuteMenuItem :: "string \<Rightarrow> exn option"
  FindGameObjectsWithTag :: "string option \<Rightarrow> exn + game_object list"
  GetComponent :: "game_object \<Rightarrow> exn + director option"
  set_activeObject :: "director \<Rightarrow> exn option"
  get_playableAsset :: "director \<Rightarrow> exn + timeline option"
  get_fps :: "timeline \<Rightarrow> exn + pyfloat"
  set_time :: "director \<Rightarrow> pyfloat \<Rightarrow> exn option"
  get_name :: "game_object \<Rightarrow> exn + string"

datatype host_call =
    Call_OpenScene "string option"
  | Call_ExecuteMenuItem string
  | Call_FindGameObjectsWithTag "string option"
  | Call_GetComponent game_object
  | Call_set_activeObject director
  | Call_get_playableAsset director
  | Call_get_fps timeline
  | Call_set_time director pyfloat
  | Call_get_name game_object

datatype log_entry =
    Debug string pyval pyval
  | Error string

record world =
  logged :: "log_entry list"
  host_calls :: "host_call list"

definition logger :: "log_entry \<Rightarrow> world \<Rightarrow> world" where
  "logger m w = w\<lparr>logged := logged w @ [m]\<rparr>"

definition call :: "host_call \<Rightarrow> world \<Rightarrow> world" where
  "call c w = w\<lparr>host_calls := host_calls w @ [c]\<rparr>"

text \<open>
  What \<^verbatim>\<open>execute_action\<close> uses and does not define: the editor, the same method of the
  hook base class, and \<^verbatim>\<open>str\<close> on an exception object.
\<close>

record exec_env =
  editor :: host
  super_execute_action :: "string \<Rightarrow> pyval \<Rightarrow> pyval \<Rightarrow> world \<Rightarrow> (exn + unit) \<times> world"
  str_exn :: "exn \<Rightarrow> string"

section \<open>execute\_action\<close>

text \<open>
  Lines 115 to 118: \<^verbatim>\<open>main_director\<close> is \<^verbatim>\<open>None\<close> unless the tag lookup returns a
  non-empty array, and then it is the \<^verbatim>\<open>PlayableDirector\<close> component of element 0.
\<close>

definition find_main_director ::
  "host \<Rightarrow> string option \<Rightarrow> world \<Rightarrow> (exn + game_object list \<times> director option) \<times> world" where
  "find_main_director h tag w =
    (let w1 = call (Call_FindGameObjectsWithTag tag) w in
    (case FindGameObjectsWithTag h tag of
       Inl e \<Rightarrow> (Inl e, w1)
     | Inr game_objects \<Rightarrow>
         (case game_objects of
            [] \<Rightarrow> (Inr (game_objects, None), w1)
          | g # _ \<Rightarrow>
              (let w2 = call (Call_GetComponent g) w1 in
              (case GetComponent h g of
                 Inl e \<Rightarrow> (Inl e, w2)
               | Inr main_director \<Rightarrow> (Inr (game_objects, main_director), w2))))))"

definition no_asset_message :: "string \<Rightarrow> string" where
  \<open>no_asset_message n =
     ''Shotgun is unable to jump to frame: The "'' @ n @
     ''" PlayableDirector does not have a valid Playable Asset assigned.''\<close>

definition please_tag_message :: "string \<Rightarrow> string" where
  \<open>please_tag_message t =
     ''Shotgun is unable to jump to frame: please choose a PlayableDirector and tag it with "''
     @ t @ ''".''\<close>

text \<open>Lines 122 to 130, the body of the \<^verbatim>\<open>try\<close> statement.\<close>

definition try_body ::
  "host \<Rightarrow> int \<Rightarrow> game_object list \<Rightarrow> director \<Rightarrow> world \<Rightarrow> (exn + unit) \<times> world" where
  "try_body h frame_number game_objects main_director w =
    (let w1 = call (Call_set_activeObject main_director) w in
    (case set_activeObject h main_director of
       Some e \<Rightarrow> (Inl e, w1)
     | None \<Rightarrow>
    (let w2 = call (Call_get_playableAsset main_director) w1 in
    (case get_playableAsset h main_director of
       Inl e \<Rightarrow> (Inl e, w2)
     | Inr (Some timeline) \<Rightarrow>
         (let w3 = call (Call_get_fps timeline) w2 in
         (case get_fps h timeline of
            Inl e \<Rightarrow> (Inl e, w3)
          | Inr fps \<Rightarrow>
              (case py_truediv frame_number fps of
                 Inl e \<Rightarrow> (Inl e, w3)
               | Inr t \<Rightarrow>
                   (let w4 = call (Call_set_time main_director t) w3 in
                   (case set_time h main_director t of
                      Some e \<Rightarrow> (Inl e, w4)
                    | None \<Rightarrow> (Inr (), w4))))))
     | Inr None \<Rightarrow>
         (case game_objects of
            [] \<Rightarrow> (Inl IndexError, w2)
          | g # _ \<Rightarrow>
              (let w3 = call (Call_get_name g) w2 in
              (case get_name h g of
                 Inl e \<Rightarrow> (Inl e, w3)
               | Inr n \<Rightarrow> (Inr (), logger (Error (no_asset_message n)) w3))))))))"

text \<open>Lines 104 to 136, the branch for \<^verbatim>\<open>name == "jump_to_frame"\<close>.\<close>

definition jump_to_frame ::
  "exec_env \<Rightarrow> pyval \<Rightarrow> world \<Rightarrow> (exn + unit) \<times> world" where
  "jump_to_frame env params w =
    (case py_getitem params ''frame_number'' of
       Inl e \<Rightarrow> (Inl e, w)
     | Inr v \<Rightarrow>
    (case py_int v of
       Inl e \<Rightarrow> (Inl e, w)
     | Inr frame_number \<Rightarrow>
    (case py_get params ''scene_path'' of
       Inl e \<Rightarrow> (Inl e, w)
     | Inr p \<Rightarrow>
    (case to_host_string p of
       Inl e \<Rightarrow> (Inl e, w)
     | Inr scene_path \<Rightarrow>
    (let w1 = call (Call_OpenScene scene_path) w in
    (case OpenScene (editor env) scene_path of
       Some e \<Rightarrow> (Inl e, w1)
     | None \<Rightarrow>
    (let w2 = call (Call_ExecuteMenuItem ''Window/Sequencing/Timeline'') w1 in
    (case ExecuteMenuItem (editor env) ''Window/Sequencing/Timeline'' of
       Some e \<Rightarrow> (Inl e, w2)
     | None \<Rightarrow>
    (case py_getitem params ''main_timeline_tag'' of
       Inl e \<Rightarrow> (Inl e, w2)
     | Inr t \<Rightarrow>
    (case to_host_string t of
       Inl e \<Rightarrow> (Inl e, w2)
     | Inr tag \<Rightarrow>
    (case find_main_director (editor env) tag w2 of
       (Inl e, w3) \<Rightarrow> (Inl e, w3)
     | (Inr (game_objects, Some main_director), w3) \<Rightarrow>
         (case try_body (editor env) frame_number game_objects main_director w3 of
            (Inl e, w4) \<Rightarrow>
              (Inr (), logger (Error (''Unable to Jump to Frame: '' @ str_exn env e)) w4)
          | (Inr u, w4) \<Rightarrow> (Inr (), w4))
     | (Inr (game_objects, None), w3) \<Rightarrow>
         (Inr (), logger (Error (please_tag_message (format_arg tag))) w3))))))))))))"

text \<open>\<^verbatim>\<open>execute_action(self, name, params, sg_data)\<close>.\<close>

definition execute_action ::
  "exec_env \<Rightarrow> string \<Rightarrow> pyval \<Rightarrow> pyval \<Rightarrow> world \<Rightarrow> (exn + unit) \<times> world" where
  "execute_action env name params sg_data w0 =
    (let w = logger (Debug name params sg_data) w0 in
     if name = ''jump_to_frame'' then jump_to_frame env params w
     else super_execute_action env name params sg_data w)"

section \<open>Concrete environments\<close>

text \<open>
  Inputs at which the statements below are evaluated: a Shotgun entity, a descriptor
  as the base class returns it, the dictionary a resolver gives for a shot, and
  environments that differ in their configuration and collaborators.
\<close>

definition sg_version :: pyval where
  "sg_version = PyDict [(''type'', PyStr ''Version''), (''id'', PyInt 42)]"

definition playlist_action :: descriptor where
  "playlist_action =
     \<lparr> action_name = ''add_to_playlist'', action_params = PyNone,
       action_group = ''Update Version'', action_caption = ''Add to playlist'',
       action_description = ''Add the version to a playlist.'' \<rparr>"

definition base_jump_action :: descriptor where
  "base_jump_action =
     \<lparr> action_name = ''jump_to_frame'', action_params = PyNone,
       action_group = ''Jump to Frame'', action_caption = ''Jump to Frame'',
       action_description = ''Provided by the base class.'' \<rparr>"

definition shot_metadata :: pydict where
  "shot_metadata =
     [(''scene_path'', PyStr ''Assets/Scenes/Shot010.unity''),
      (''frame_number'', PyStr ''48'')]"

definition first_frame_metadata :: pydict where
  "first_frame_metadata =
     [(''scene_path'', PyStr ''Assets/Scenes/Shot010.unity''),
      (''frame_number'', PyInt 0)]"

definition env_ok :: gen_env where
  "env_ok =
     \<lparr> super_generate_actions = (\<lambda>sg_data actions ui_area. [playlist_action]),
       settings = [(''main_timeline_tag'', PyStr ''MainTimeline'')],
       get_metadata_from_entity = (\<lambda>sg_data. Some shot_metadata),
       relates_to_current_project = (\<lambda>metadata. True),
       relates_to_existing_scene = (\<lambda>metadata. True) \<rparr>"

definition env_untagged :: gen_env where
  "env_untagged =
     \<lparr> super_generate_actions = (\<lambda>sg_data actions ui_area. [base_jump_action]),
       settings = [],
       get_metadata_from_entity = (\<lambda>sg_data. Some shot_metadata),
       relates_to_current_project = (\<lambda>metadata. True),
       relates_to_existing_scene = (\<lambda>metadata. True) \<rparr>"

definition env_first_frame :: gen_env where
  "env_first_frame = env_ok\<lparr> get_metadata_from_entity := (\<lambda>sg_data. Some first_frame_metadata) \<rparr>"

definition env_other_project :: gen_env where
  "env_other_project = env_ok\<lparr> relates_to_current_project := (\<lambda>metadata. False) \<rparr>"

definition env_unresolved :: gen_env where
  "env_unresolved =
     \<lparr> super_generate_actions = (\<lambda>sg_data actions ui_area. [playlist_action]),
       settings = [],
       get_metadata_from_entity = (\<lambda>sg_data. None),
       relates_to_current_project = (\<lambda>metadata. False),
       relates_to_existing_scene = (\<lambda>metadata. False) \<rparr>"

text \<open>
  For \<^verbatim>\<open>execute_action\<close>: parameters as \<^verbatim>\<open>generate_actions\<close> attaches them, parameters
  that break the contract, and editors that answer the calls in different ways. In
  \<open>studio_host\<close> two objects carry the tag, the first has a director, and its timeline
  runs at 24 frames per second. \<open>huge_frame_params\<close> has a frame number beyond the
  range of a float, and in \<open>host_zero_fps\<close> the rate of the timeline is zero.
\<close>

definition jump_params :: pyval where
  "jump_params =
     PyDict [(''scene_path'', PyStr ''Assets/Scenes/Shot010.unity''),
             (''frame_number'', PyStr ''48''),
             (''main_timeline_tag'', PyStr ''MainTimeline'')]"

definition odd_frame_params :: pyval where
  "odd_frame_params =
     PyDict [(''scene_path'', PyStr ''Assets/Scenes/Shot010.unity''),
             (''frame_number'', PyInt 49),
             (''main_timeline_tag'', PyStr ''MainTimeline'')]"

definition bad_frame_params :: pyval where
  "bad_frame_params =
     PyDict [(''scene_path'', PyStr ''Assets/Scenes/Shot010.unity''),
             (''frame_number'', PyStr ''forty-eight''),
             (''main_timeline_tag'', PyStr ''MainTimeline'')]"

definition huge_frame_params :: pyval where
  "huge_frame_params =
     PyDict [(''scene_path'', PyStr ''Assets/Scenes/Shot010.unity''),
             (''frame_number'', PyInt (10 ^ 309)),
             (''main_timeline_tag'', PyStr ''MainTimeline'')]"

definition untagged_params :: pyval where
  "untagged_params =
     PyDict [(''scene_path'', PyStr ''Assets/Scenes/Shot010.unity''),
             (''frame_number'', PyStr ''48'')]"

definition studio_host :: host where
  "studio_host =
     \<lparr> OpenScene = (\<lambda>scene_path. None),
       ExecuteMenuItem = (\<lambda>item. None),
       FindGameObjectsWithTag =
         (\<lambda>tag. if tag = Some ''MainTimeline''
                 then Inr [GameObject 1, GameObject 2] else Inr []),
       GetComponent =
         (\<lambda>g. if g = GameObject 1 then Inr (Some (PlayableDirector 1)) else Inr None),
       set_activeObject = (\<lambda>d. None),
       get_playableAsset = (\<lambda>d. Inr (Some (TimelineAsset 1))),
       get_fps = (\<lambda>timeline. Inr (Finite 24)),
       set_time = (\<lambda>d t. None),
       get_name = (\<lambda>g. Inr ''Director'') \<rparr>"

definition host_no_asset :: host where
  "host_no_asset = studio_host\<lparr> get_playableAsset := (\<lambda>d. Inr None) \<rparr>"

definition host_zero_fps :: host where
  "host_zero_fps = studio_host\<lparr> get_fps := (\<lambda>timeline. Inr (Finite 0)) \<rparr>"

definition host_no_objects :: host where
  "host_no_objects = studio_host\<lparr> FindGameObjectsWithTag := (\<lambda>tag. Inr []) \<rparr>"

definition host_undefined_tag :: host where
  "host_undefined_tag =
     studio_host\<lparr> FindGameObjectsWithTag :=
       (\<lambda>tag. Inl (HostException ''Tag: MainTimeline is not defined.'')) \<rparr>"

definition host_selection_fails :: host where
  "host_selection_fails =
     studio_host\<lparr> set_activeObject := (\<lambda>d. Some (HostException ''Selection is locked'')) \<rparr>"

definition host_director_second :: host where
  "host_director_second =
     studio_host\<lparr> GetComponent :=
       (\<lambda>g. if g = GameObject 2 then Inr (Some (PlayableDirector 2)) else Inr None) \<rparr>"

definition exn_text :: "exn \<Rightarrow> string" where
  "exn_text e =
     (case e of
        HostException m \<Rightarrow> m
      | KeyError k \<Rightarrow> k
      | ZeroDivisionError \<Rightarrow> ''float division by zero''
      | OverflowError \<Rightarrow> ''long int too large to convert to float''
      | _ \<Rightarrow> ''error'')"

definition recording_super ::
  "string \<Rightarrow> pyval \<Rightarrow> pyval \<Rightarrow> world \<Rightarrow> (exn + unit) \<times> world" where
  "recording_super name params sg_data w = (Inr (), logger (Error (''super: '' @ name)) w)"

definition exec_env_of :: "host \<Rightarrow> exec_env" where
  "exec_env_of h =
     \<lparr> editor = h, super_execute_action = recording_super, str_exn = exn_text \<rparr>"

definition world0 :: world where
  "world0 = \<lparr> logged = [], host_calls = [] \<rparr>"

section \<open>Properties of generate\_actions\<close>

lemma truthy_non_empty: "truthy v \<Longrightarrow> non_empty v"
  by (cases v) simp_all

lemma non_empty_truthy: "\<not> zero_number v \<Longrightarrow> non_empty v \<Longrightarrow> truthy v"
  by (cases v) simp_all

lemma not_eligible_base:
  "\<not> eligible env sg_data actions \<Longrightarrow>
     snd (generate_actions env sg_data actions ui_area)
       = super_generate_actions env sg_data actions ui_area"
  by (auto simp add: generate_actions_def eligible_def Let_def truthy_non_empty
        split: option.splits)

lemma eligible_appended:
  assumes "eligible env sg_data actions"
    and "get_metadata_from_entity env sg_data = Some metadata"
    and "\<not> zero_number (dict_get metadata ''frame_number'')"
  shows "snd (generate_actions env sg_data actions ui_area)
           = super_generate_actions env sg_data actions ui_area
             @ [jump_to_frame_action
                  (dict_set metadata ''main_timeline_tag''
                     (dict_get (settings env) ''main_timeline_tag''))]"
  using assms
  by (simp add: generate_actions_def eligible_def Let_def non_empty_truthy)

lemma eligible_env_ok: "eligible env_ok sg_version [''jump_to_frame'']"
  by (simp add: eligible_def env_ok_def shot_metadata_def dict_get_def)

lemma not_eligible_env_unresolved: "\<not> eligible env_unresolved sg_version [''jump_to_frame'']"
  by (simp add: eligible_def env_unresolved_def dict_get_def)

text \<open>
  C1, as stated: a descriptor named \<^verbatim>\<open>jump_to_frame\<close> is in the returned list if and only
  if all eligibility conditions hold. The returned list starts with whatever the base
  class returned, and the method does not filter it. With a base class that itself
  offers an action of that name and no \<^verbatim>\<open>main_timeline_tag\<close> configured, the returned
  list has such a descriptor although the conditions fail.
\<close>

theorem generate_actions_jump_iff_counterexample:
  "''jump_to_frame'' \<in> set (map action_name
       (snd (generate_actions env_untagged sg_version [''jump_to_frame''] ''details'')))
   \<and> \<not> eligible env_untagged sg_version [''jump_to_frame'']"
  by (simp add: generate_actions_def eligible_def env_untagged_def base_jump_action_def
        dict_get_def Let_def)

text \<open>
  C1, amended: in a call whose metadata does not give a zero number as
  \<^verbatim>\<open>frame_number\<close>, a descriptor named \<^verbatim>\<open>jump_to_frame\<close> is in the returned list if and
  only if all eligibility conditions hold or the base-class result already has one;
  and in every call, when a condition fails the returned list is exactly the
  base-class result, so that the method itself adds no descriptor, whole or partial.
  Nothing is said of what is returned when all conditions hold and the frame number is
  a zero number.
\<close>

theorem generate_actions_jump_iff:
  "((case get_metadata_from_entity env sg_data of
       None \<Rightarrow> True
     | Some metadata \<Rightarrow> \<not> zero_number (dict_get metadata ''frame_number'')) \<longrightarrow>
    (''jump_to_frame'' \<in> set (map action_name (snd (generate_actions env sg_data actions ui_area)))
      \<longleftrightarrow> eligible env sg_data actions
          \<or> ''jump_to_frame''
              \<in> set (map action_name (super_generate_actions env sg_data actions ui_area))))
   \<and> (\<not> eligible env sg_data actions \<longrightarrow>
        snd (generate_actions env sg_data actions ui_area)
          = super_generate_actions env sg_data actions ui_area)"
proof (cases "eligible env sg_data actions")
  case False
  then show ?thesis
    by (simp add: not_eligible_base)
next
  case True
  then obtain metadata where m: "get_metadata_from_entity env sg_data = Some metadata"
    by (auto simp add: eligible_def split: option.splits)
  show ?thesis
  proof (cases "zero_number (dict_get metadata ''frame_number'')")
    case True
    with m \<open>eligible env sg_data actions\<close> show ?thesis by simp
  next
    case False
    with eligible_appended [OF \<open>eligible env sg_data actions\<close> m] m
      \<open>eligible env sg_data actions\<close>
    show ?thesis
      by (simp add: jump_to_frame_action_def)
  qed
qed

theorem generate_actions_jump_iff_witness:
  "eligible env_ok sg_version [''jump_to_frame'']
   \<and> \<not> zero_number (dict_get shot_metadata ''frame_number'')
   \<and> ''jump_to_frame'' \<in> set (map action_name
         (snd (generate_actions env_ok sg_version [''jump_to_frame''] ''details'')))
   \<and> \<not> eligible env_unresolved sg_version [''jump_to_frame'']
   \<and> snd (generate_actions env_unresolved sg_version [''jump_to_frame''] ''details'')
       = [playlist_action]"
proof -
  have c: "super_generate_actions env_unresolved sg_version [''jump_to_frame''] ''details''
             = [playlist_action]"
    by (simp add: env_unresolved_def)
  have m: "get_metadata_from_entity env_ok sg_version = Some shot_metadata"
    by (simp add: env_ok_def)
  have z: "\<not> zero_number (dict_get shot_metadata ''frame_number'')"
    by (simp add: shot_metadata_def dict_get_def)
  from eligible_env_ok not_eligible_env_unresolved c m z
    generate_actions_jump_iff [of env_ok sg_version "[''jump_to_frame'']" "''details''"]
    generate_actions_jump_iff [of env_unresolved sg_version "[''jump_to_frame'']" "''details''"]
  show ?thesis by simp
qed

text \<open>
  The input that the amended statement leaves out. The comment of line 74 reads
  "There should be a frame number"; for the frame number 0 there is one, all other
  conditions hold, and the truth test of line 75 returns the base-class result.
\<close>

lemma generate_actions_first_frame:
  "eligible env_first_frame sg_version [''jump_to_frame'']
   \<and> snd (generate_actions env_first_frame sg_version [''jump_to_frame''] ''details'')
       = [playlist_action]"
  by (simp add: generate_actions_def eligible_def env_first_frame_def env_ok_def
        first_frame_metadata_def dict_get_def Let_def)



text \<open>
  C3: when the resolver returns no metadata, or the metadata fails the project check,
  the scene check or the frame-number check, the returned list is exactly the
  base-class result. The checks are made in this order and the first failing check is
  the last one made: in every run the calls form an initial segment of one fixed
  sequence, and in a run that fails a check the calls stop at that check or earlier.
\<close>

theorem generate_actions_ineligible_metadata:
  "(\<exists>m. prefix (fst (generate_actions env sg_data actions ui_area))
          [Logger_debug ui_area actions sg_data,
           Super_generate_actions sg_data actions ui_area,
           Settings_get ''main_timeline_tag'',
           Get_metadata_from_entity sg_data,
           Relates_to_current_project m,
           Relates_to_existing_scene m,
           Metadata_get ''frame_number'',
           Metadata_setitem ''main_timeline_tag''
             (dict_get (settings env) ''main_timeline_tag'')])
   \<and> (case get_metadata_from_entity env sg_data of
      None \<Rightarrow>
        snd (generate_actions env sg_data actions ui_area)
          = super_generate_actions env sg_data actions ui_area
        \<and> prefix (fst (generate_actions env sg_data actions ui_area))
            [Logger_debug ui_area actions sg_data,
             Super_generate_actions sg_data actions ui_area,
             Settings_get ''main_timeline_tag'',
             Get_metadata_from_entity sg_data]
    | Some m \<Rightarrow>
        (m = [] \<longrightarrow>
           snd (generate_actions env sg_data actions ui_area)
             = super_generate_actions env sg_data actions ui_area
           \<and> prefix (fst (generate_actions env sg_data actions ui_area))
               [Logger_debug ui_area actions sg_data,
                Super_generate_actions sg_data actions ui_area,
                Settings_get ''main_timeline_tag'',
                Get_metadata_from_entity sg_data])
        \<and> (m \<noteq> [] \<and> \<not> relates_to_current_project env m \<longrightarrow>
           snd (generate_actions env sg_data actions ui_area)
             = super_generate_actions env sg_data actions ui_area
           \<and> prefix (fst (generate_actions env sg_data actions ui_area))
               [Logger_debug ui_area actions sg_data,
                Super_generate_actions sg_data actions ui_area,
                Settings_get ''main_timeline_tag'',
                Get_metadata_from_entity sg_data,
                Relates_to_current_project m])
        \<and> (m \<noteq> [] \<and> relates_to_current_project env m
             \<and> \<not> relates_to_existing_scene env m \<longrightarrow>
           snd (generate_actions env sg_data actions ui_area)
             = super_generate_actions env sg_data actions ui_area
           \<and> prefix (fst (generate_actions env sg_data actions ui_area))
               [Logger_debug ui_area actions sg_data,
                Super_generate_actions sg_data actions ui_area,
                Settings_get ''main_timeline_tag'',
                Get_metadata_from_entity sg_data,
                Relates_to_current_project m,
                Relates_to_existing_scene m])
        \<and> (m \<noteq> [] \<and> relates_to_current_project env m \<and> relates_to_existing_scene env m
             \<and> \<not> truthy (dict_get m ''frame_number'') \<longrightarrow>
           snd (generate_actions env sg_data actions ui_area)
             = super_generate_actions env sg_data actions ui_area
           \<and> prefix (fst (generate_actions env sg_data actions ui_area))
               [Logger_debug ui_area actions sg_data,
                Super_generate_actions sg_data actions ui_area,
                Settings_get ''main_timeline_tag'',
                Get_metadata_from_entity sg_data,
                Relates_to_current_project m,
                Relates_to_existing_scene m,
                Metadata_get ''frame_number'']))"
proof -
  have order: "\<exists>m. prefix (fst (generate_actions env sg_data actions ui_area))
          [Logger_debug ui_area actions sg_data,
           Super_generate_actions sg_data actions ui_area,
           Settings_get ''main_timeline_tag'',
           Get_metadata_from_entity sg_data,
           Relates_to_current_project m,
           Relates_to_existing_scene m,
           Metadata_get ''frame_number'',
           Metadata_setitem ''main_timeline_tag''
             (dict_get (settings env) ''main_timeline_tag'')]"
    by (auto simp add: generate_actions_def Let_def split: option.splits)
  show ?thesis
    apply (rule conjI)
     apply (rule order)
    apply (simp add: generate_actions_def Let_def split: option.splits)
    done
qed

theorem generate_actions_ineligible_metadata_witness:
  "\<not> relates_to_current_project env_other_project shot_metadata
   \<and> snd (generate_actions env_other_project sg_version [''jump_to_frame''] ''details'')
       = [playlist_action]
   \<and> prefix (fst (generate_actions env_other_project sg_version [''jump_to_frame''] ''details''))
       [Logger_debug ''details'' [''jump_to_frame''] sg_version,
        Super_generate_actions sg_version [''jump_to_frame''] ''details'',
        Settings_get ''main_timeline_tag'',
        Get_metadata_from_entity sg_version,
        Relates_to_current_project shot_metadata]"
proof -
  have m: "get_metadata_from_entity env_other_project sg_version = Some shot_metadata"
    by (simp add: env_other_project_def env_ok_def)
  have n: "shot_metadata \<noteq> []"
    by (simp add: shot_metadata_def)
  have p: "\<not> relates_to_current_project env_other_project shot_metadata"
    by (simp add: env_other_project_def)
  have b: "super_generate_actions env_other_project sg_version [''jump_to_frame''] ''details''
             = [playlist_action]"
    by (simp add: env_other_project_def env_ok_def)
  from generate_actions_ineligible_metadata
         [of env_other_project sg_version "[''jump_to_frame'']" "''details''"] m n p b
  show ?thesis by simp
qed

text \<open>
  C4: when \<^verbatim>\<open>jump_to_frame\<close> is not among the requested actions, the returned list is the
  base-class result, the only calls made are the debug message and the base-class
  call, and two environments that agree on the base class give the same calls and the
  same list, whatever their settings and their resolver do.
\<close>

theorem generate_actions_not_requested:
  assumes "''jump_to_frame'' \<notin> set actions"
    and "super_generate_actions env1 = super_generate_actions env2"
  shows "generate_actions env1 sg_data actions ui_area
           = generate_actions env2 sg_data actions ui_area
         \<and> snd (generate_actions env1 sg_data actions ui_area)
             = super_generate_actions env1 sg_data actions ui_area
         \<and> fst (generate_actions env1 sg_data actions ui_area)
             = [Logger_debug ui_area actions sg_data,
                Super_generate_actions sg_data actions ui_area]"
  using assms by (simp add: generate_actions_def)

theorem generate_actions_not_requested_witness:
  "generate_actions env_ok sg_version [''add_to_playlist''] ''main''
     = generate_actions env_unresolved sg_version [''add_to_playlist''] ''main''
   \<and> snd (generate_actions env_ok sg_version [''add_to_playlist''] ''main'') = [playlist_action]
   \<and> settings env_ok \<noteq> settings env_unresolved
   \<and> get_metadata_from_entity env_ok sg_version
        \<noteq> get_metadata_from_entity env_unresolved sg_version"
proof -
  have a: "''jump_to_frame'' \<notin> set [''add_to_playlist'']" by simp
  have b: "super_generate_actions env_ok = super_generate_actions env_unresolved"
    by (simp add: env_ok_def env_unresolved_def)
  have c: "super_generate_actions env_ok sg_version [''add_to_playlist''] ''main''
             = [playlist_action]"
    by (simp add: env_ok_def)
  have d: "settings env_ok \<noteq> settings env_unresolved"
    "get_metadata_from_entity env_ok sg_version
        \<noteq> get_metadata_from_entity env_unresolved sg_version"
    by (simp_all add: env_ok_def env_unresolved_def)
  from generate_actions_not_requested [OF a b, of sg_version "''main''"]
  have e: "generate_actions env_ok sg_version [''add_to_playlist''] ''main''
             = generate_actions env_unresolved sg_version [''add_to_playlist''] ''main''"
    and f: "snd (generate_actions env_ok sg_version [''add_to_playlist''] ''main'')
             = super_generate_actions env_ok sg_version [''add_to_playlist''] ''main''"
    by blast+
  from f c have "snd (generate_actions env_ok sg_version [''add_to_playlist''] ''main'')
             = [playlist_action]"
    by (rule trans)
  with e d show ?thesis by blast
qed

section \<open>Properties of execute\_action\<close>

lemma py_int_48: "py_int (PyStr ''48'') = Inr 48"
  by (simp add: int_literal_def strip_def is_space_def digit_value_def)

lemma py_int_forty_eight: "py_int (PyStr ''forty-eight'') = Inl ValueError"
  by (simp add: int_literal_def strip_def is_space_def digit_value_def)

lemma execute_reached:
  assumes "py_getitem params ''frame_number'' = Inr v"
    and "py_int v = Inr n"
    and "py_get params ''scene_path'' = Inr p"
    and "to_host_string p = Inr scene_path"
    and "OpenScene (editor env) scene_path = None"
    and "ExecuteMenuItem (editor env) ''Window/Sequencing/Timeline'' = None"
    and "py_getitem params ''main_timeline_tag'' = Inr t"
    and "to_host_string t = Inr tag"
  shows "execute_action env ''jump_to_frame'' params sg_data w =
    (case find_main_director (editor env) tag
            (w\<lparr>logged := logged w @ [Debug ''jump_to_frame'' params sg_data],
               host_calls := host_calls w
                 @ [Call_OpenScene scene_path,
                    Call_ExecuteMenuItem ''Window/Sequencing/Timeline'']\<rparr>) of
       (Inl e, w3) \<Rightarrow> (Inl e, w3)
     | (Inr (game_objects, Some main_director), w3) \<Rightarrow>
         (case try_body (editor env) n game_objects main_director w3 of
            (Inl e, w4) \<Rightarrow>
              (Inr (), logger (Error (''Unable to Jump to Frame: '' @ str_exn env e)) w4)
          | (Inr u, w4) \<Rightarrow> (Inr (), w4))
     | (Inr (game_objects, None), w3) \<Rightarrow>
         (Inr (), logger (Error (please_tag_message (format_arg tag))) w3))"
  using assms
  by (simp add: execute_action_def jump_to_frame_def Let_def call_def logger_def)

lemma jump_params_reached:
  "py_getitem jump_params ''frame_number'' = Inr (PyStr ''48'')"
  "py_get jump_params ''scene_path'' = Inr (PyStr ''Assets/Scenes/Shot010.unity'')"
  "py_getitem jump_params ''main_timeline_tag'' = Inr (PyStr ''MainTimeline'')"
  by (simp_all add: jump_params_def dict_get_def)

lemma host_str: "to_host_string (PyStr s) = Inr (Some s)"
  by simp

subsection \<open>Float arithmetic at the inputs used below\<close>

lemma round_half_even_of_int: "round_half_even (of_int m) = m"
  by (simp add: round_half_even_def)

lemma floor_le_round_half_even: "\<lfloor>y\<rfloor> \<le> round_half_even y"
  by (simp add: round_half_even_def Let_def)

lemma quantum_eq:
  assumes "2 powi e \<le> \<bar>x\<bar>" and "\<bar>x\<bar> < 2 powi (e + 1)" and "- 1022 \<le> e"
  shows "quantum x = 2 powi (e - 52)"
proof -
  have pos: "0 < \<bar>x\<bar>"
    using assms(1) by (smt (verit) zero_less_power_int)
  have a: "2 powr real_of_int e \<le> \<bar>x\<bar>"
    using assms(1) by (simp add: powr_real_of_int')
  have b: "\<bar>x\<bar> < 2 powr real_of_int (e + 1)"
    using assms(2) by (simp add: powr_real_of_int' del: of_int_add)
  have "\<lfloor>log 2 \<bar>x\<bar>\<rfloor> = e"
    using a b pos floor_log_eq_powr_iff [of "\<bar>x\<bar>" 2 e] by simp
  with assms(3) show ?thesis by (simp add: quantum_def)
qed

lemma round_binary64_exact:
  assumes "quantum x = q" and "q \<noteq> 0" and "x / q = of_int m"
  shows "round_binary64 x = x"
proof -
  from assms(2,3) have "x = of_int m * q" by (simp add: field_simps)
  with assms show ?thesis
    by (simp add: round_binary64_def round_half_even_of_int)
qed

lemma round_binary64_ge:
  assumes "2 powi e \<le> x" and "x < 2 powi (e + 1)" and "- 1022 \<le> e"
  shows "2 powi e \<le> round_binary64 x"
proof -
  have xpos: "0 < x"
    using assms(1) by (smt (verit) zero_less_power_int)
  have q: "quantum x = 2 powi (e - 52)"
    using assms xpos by (intro quantum_eq) simp_all
  have split: "(2::real) powi e = real_of_int (2 ^ 52) * 2 powi (e - 52)"
  proof -
    have "(2::real) powi (52 + (e - 52)) = 2 powi 52 * 2 powi (e - 52)"
      by (rule power_int_add) simp
    moreover have "(2::real) powi 52 = real_of_int (2 ^ 52)"
      by simp
    moreover have "52 + (e - 52) = e"
      by simp
    ultimately show ?thesis by (simp only:)
  qed
  have qpos: "0 < (2::real) powi (e - 52)" by simp
  from split have y: "of_int (2 ^ 52) \<le> x / 2 powi (e - 52)"
    using assms(1) qpos by (simp add: field_simps)
  then have "2 ^ 52 \<le> \<lfloor>x / 2 powi (e - 52)\<rfloor>"
    by (simp only: le_floor_iff)
  with floor_le_round_half_even [of "x / 2 powi (e - 52)"]
  have "2 ^ 52 \<le> round_half_even (x / 2 powi (e - 52))" by linarith
  then have "real_of_int (2 ^ 52) \<le> real_of_int (round_half_even (x / 2 powi (e - 52)))"
    by (simp only: of_int_le_iff)
  then have "real_of_int (2 ^ 52) * 2 powi (e - 52)
               \<le> real_of_int (round_half_even (x / 2 powi (e - 52))) * 2 powi (e - 52)"
    by (rule mult_right_mono) simp
  then have "2 powi e \<le> real_of_int (round_half_even (x / 2 powi (e - 52))) * 2 powi (e - 52)"
    by (simp only: split [symmetric])
  moreover have "round_binary64 x
                   = real_of_int (round_half_even (x / 2 powi (e - 52))) * 2 powi (e - 52)"
    using xpos by (simp add: round_binary64_def q)
  ultimately show ?thesis by (simp only:)
qed

text \<open>
  An integer below \<open>2 ^ 53\<close> in magnitude converts to the float of the same value.
\<close>

lemma float_of_int_exact:
  assumes "\<bar>n\<bar> < 2 ^ 53"
  shows "float_of_int n = Inr (of_int n)"
proof (cases "n = 0")
  case True
  then show ?thesis by (simp add: float_of_int_def round_binary64_def)
next
  case False
  define e where "e = \<lfloor>log 2 \<bar>real_of_int n\<bar>\<rfloor>"
  from False have "1 \<le> \<bar>n\<bar>" by linarith
  then have "real_of_int 1 \<le> real_of_int \<bar>n\<bar>"
    by (simp only: of_int_le_iff)
  then have one: "1 \<le> \<bar>real_of_int n\<bar>"
    by simp
  then have "0 \<le> log 2 \<bar>real_of_int n\<bar>"
    by simp
  then have e0: "0 \<le> e"
    by (simp add: e_def)
  from assms have "real_of_int \<bar>n\<bar> < real_of_int (2 ^ 53)"
    by (simp only: of_int_less_iff)
  then have lt: "\<bar>real_of_int n\<bar> < 2 ^ 53"
    by simp
  then have "log 2 \<bar>real_of_int n\<bar> < 53"
    using one by (simp add: log_less_iff powr_realpow)
  then have e52: "e \<le> 52"
    unfolding e_def by linarith
  have q: "quantum (real_of_int n) = 2 powi (e - 52)"
    using e0 by (simp add: quantum_def e_def)
  have "(2::real) powi (e - 52) = inverse (2 ^ nat (52 - e))"
    using e52 by (simp add: power_int_def power_one_over inverse_eq_divide)
  then have "real_of_int n / 2 powi (e - 52) = real_of_int (n * 2 ^ nat (52 - e))"
    by (simp add: field_simps)
  with q have "round_binary64 (real_of_int n) = real_of_int n"
    by (intro round_binary64_exact [where q = "2 powi (e - 52)"
                                      and m = "n * 2 ^ nat (52 - e)"]) simp_all
  moreover have "\<bar>real_of_int n\<bar> < 2 ^ 1024"
  proof -
    have "(2::real) ^ 53 \<le> 2 ^ 1024" by simp
    with lt show ?thesis by linarith
  qed
  ultimately show ?thesis
    by (simp add: float_of_int_def)
qed

lemma round_binary64_2: "round_binary64 2 = 2"
proof -
  have q: "quantum 2 = 2 powi (- 51)"
    using quantum_eq [of 1 2] by (simp add: power_int_minus divide_simps)
  show ?thesis
    by (rule round_binary64_exact [OF q, of "2 ^ 52"])
       (simp_all add: power_int_minus divide_simps)
qed

lemma round_binary64_49_24: "round_binary64 (49 / 24) = 4597424619607381 / 2251799813685248"
proof -
  have q: "quantum (49 / 24) = 2 powi (- 51)"
    using quantum_eq [of 1 "49 / 24"] by (simp add: power_int_minus divide_simps)
  show ?thesis
    by (simp add: round_binary64_def q round_half_even_def Let_def power_int_minus
          divide_simps)
qed

lemma round_binary64_huge: "2 ^ 1024 \<le> round_binary64 (10 ^ 309)"
proof -
  have "2 powi 1026 \<le> round_binary64 (10 ^ 309)"
    by (rule round_binary64_ge) simp_all
  moreover have "(2::real) ^ 1024 \<le> 2 powi 1026"
    by simp
  ultimately show ?thesis by (rule order_trans [rotated])
qed

lemma float_of_int_48: "float_of_int 48 = Inr 48"
  using float_of_int_exact [of 48] by simp

lemma float_of_int_49: "float_of_int 49 = Inr 49"
  using float_of_int_exact [of 49] by simp

lemma float_of_int_huge: "float_of_int (10 ^ 309) = Inl OverflowError"
proof -
  have "(2::real) ^ 1024 \<le> \<bar>round_binary64 (real_of_int (10 ^ 309))\<bar>"
    using round_binary64_huge by (simp only: of_int_power of_int_numeral)
  then show ?thesis
    unfolding float_of_int_def Let_def by (simp only: if_True)
qed

lemma float_of_real_2: "float_of_real (48 / 24) = Finite 2"
  using round_binary64_2 by (simp add: float_of_real_def)

lemma float_of_real_49_24:
  "float_of_real (49 / 24) = Finite (4597424619607381 / 2251799813685248)"
  using round_binary64_49_24 by (simp add: float_of_real_def)

lemma studio_env_answers:
  "OpenScene (editor (exec_env_of studio_host)) p = None"
  "ExecuteMenuItem (editor (exec_env_of studio_host)) i = None"
  "FindGameObjectsWithTag (editor (exec_env_of studio_host)) (Some ''MainTimeline'')
     = Inr [GameObject 1, GameObject 2]"
  "GetComponent (editor (exec_env_of studio_host)) (GameObject 1)
     = Inr (Some (PlayableDirector 1))"
  "set_activeObject (editor (exec_env_of studio_host)) d = None"
  "get_playableAsset (editor (exec_env_of studio_host)) d = Inr (Some (TimelineAsset 1))"
  "get_fps (editor (exec_env_of studio_host)) asset = Inr (Finite 24)"
  "set_time (editor (exec_env_of studio_host)) d t = None"
  by (simp_all add: exec_env_of_def studio_host_def)

lemma odd_frame_params_reached:
  "py_getitem odd_frame_params ''frame_number'' = Inr (PyInt 49)"
  "py_get odd_frame_params ''scene_path'' = Inr (PyStr ''Assets/Scenes/Shot010.unity'')"
  "py_getitem odd_frame_params ''main_timeline_tag'' = Inr (PyStr ''MainTimeline'')"
  by (simp_all add: odd_frame_params_def dict_get_def)

lemma huge_frame_params_reached:
  "py_getitem huge_frame_params ''frame_number'' = Inr (PyInt (10 ^ 309))"
  "py_get huge_frame_params ''scene_path'' = Inr (PyStr ''Assets/Scenes/Shot010.unity'')"
  "py_getitem huge_frame_params ''main_timeline_tag'' = Inr (PyStr ''MainTimeline'')"
  by (simp_all add: huge_frame_params_def dict_get_def)

lemma fps_nonzero: "(24::real) \<noteq> 0"
  by simp

lemma execute_division_raises:
  assumes "py_getitem params ''frame_number'' = Inr v"
    and "py_int v = Inr n"
    and "py_get params ''scene_path'' = Inr p"
    and "to_host_string p = Inr scene_path"
    and "OpenScene (editor env) scene_path = None"
    and "ExecuteMenuItem (editor env) ''Window/Sequencing/Timeline'' = None"
    and "py_getitem params ''main_timeline_tag'' = Inr t"
    and "to_host_string t = Inr tag"
    and "FindGameObjectsWithTag (editor env) tag = Inr (g # gs)"
    and "GetComponent (editor env) g = Inr (Some d)"
    and "set_activeObject (editor env) d = None"
    and "get_playableAsset (editor env) d = Inr (Some timeline)"
    and "get_fps (editor env) timeline = Inr fps"
    and "py_truediv n fps = Inl e"
  shows "execute_action env ''jump_to_frame'' params sg_data w =
    (Inr (),
     w\<lparr>logged := logged w
         @ [Debug ''jump_to_frame'' params sg_data,
            Error (''Unable to Jump to Frame: '' @ str_exn env e)],
       host_calls := host_calls w
         @ [Call_OpenScene scene_path,
            Call_ExecuteMenuItem ''Window/Sequencing/Timeline'',
            Call_FindGameObjectsWithTag tag,
            Call_GetComponent g,
            Call_set_activeObject d,
            Call_get_playableAsset d,
            Call_get_fps timeline]\<rparr>)"
  using assms(9-14)
  by (simp add: execute_reached [OF assms(1-8)] find_main_director_def try_body_def
        Let_def call_def logger_def)

lemma zero_fps_env_answers:
  "OpenScene (editor (exec_env_of host_zero_fps)) p = None"
  "ExecuteMenuItem (editor (exec_env_of host_zero_fps)) i = None"
  "FindGameObjectsWithTag (editor (exec_env_of host_zero_fps)) (Some ''MainTimeline'')
     = Inr [GameObject 1, GameObject 2]"
  "GetComponent (editor (exec_env_of host_zero_fps)) (GameObject 1)
     = Inr (Some (PlayableDirector 1))"
  "set_activeObject (editor (exec_env_of host_zero_fps)) d = None"
  "get_playableAsset (editor (exec_env_of host_zero_fps)) d = Inr (Some (TimelineAsset 1))"
  "get_fps (editor (exec_env_of host_zero_fps)) asset = Inr (Finite 0)"
  by (simp_all add: exec_env_of_def host_zero_fps_def studio_host_def)

lemma truediv_huge: "py_truediv (10 ^ 309) y = Inl OverflowError"
  by (simp only: py_truediv_def float_of_int_huge sum.case)

lemma truediv_zero: "py_truediv 48 (Finite 0) = Inl ZeroDivisionError"
  by (simp add: py_truediv_def float_of_int_48)

lemma str_exn_exec_env_of:
  "str_exn (exec_env_of h) OverflowError = ''long int too large to convert to float''"
  "str_exn (exec_env_of h) ZeroDivisionError = ''float division by zero''"
  by (simp_all add: exec_env_of_def exn_text_def)

text \<open>
  C5, as stated: with a reachable tagged director whose timeline asset is assigned, the
  method sets the time of the director to the frame number divided by the frames per
  second. The division stands in the \<^verbatim>\<open>try\<close> statement and can raise. A frame number
  beyond the range of a float raises \<^verbatim>\<open>OverflowError\<close>, and a rate of zero raises
  \<^verbatim>\<open>ZeroDivisionError\<close>; either is logged, the method returns, and no time is set.
\<close>

theorem execute_action_sets_time_counterexample:
  "execute_action (exec_env_of studio_host) ''jump_to_frame'' huge_frame_params sg_version
       world0 =
     (Inr (),
      \<lparr> logged =
          [Debug ''jump_to_frame'' huge_frame_params sg_version,
           Error ''Unable to Jump to Frame: long int too large to convert to float''],
        host_calls =
          [Call_OpenScene (Some ''Assets/Scenes/Shot010.unity''),
           Call_ExecuteMenuItem ''Window/Sequencing/Timeline'',
           Call_FindGameObjectsWithTag (Some ''MainTimeline''),
           Call_GetComponent (GameObject 1),
           Call_set_activeObject (PlayableDirector 1),
           Call_get_playableAsset (PlayableDirector 1),
           Call_get_fps (TimelineAsset 1)] \<rparr>)
   \<and> execute_action (exec_env_of host_zero_fps) ''jump_to_frame'' jump_params sg_version
       world0 =
     (Inr (),
      \<lparr> logged =
          [Debug ''jump_to_frame'' jump_params sg_version,
           Error ''Unable to Jump to Frame: float division by zero''],
        host_calls =
          [Call_OpenScene (Some ''Assets/Scenes/Shot010.unity''),
           Call_ExecuteMenuItem ''Window/Sequencing/Timeline'',
           Call_FindGameObjectsWithTag (Some ''MainTimeline''),
           Call_GetComponent (GameObject 1),
           Call_set_activeObject (PlayableDirector 1),
           Call_get_playableAsset (PlayableDirector 1),
           Call_get_fps (TimelineAsset 1)] \<rparr>)"
proof -
  note a = execute_division_raises
             [OF huge_frame_params_reached(1) py_int.simps(1) huge_frame_params_reached(2)
                 host_str studio_env_answers(1,2) huge_frame_params_reached(3) host_str
                 studio_env_answers(3-7) truediv_huge, of sg_version world0]
  note b = execute_division_raises
             [OF jump_params_reached(1) py_int_48 jump_params_reached(2)
                 host_str zero_fps_env_answers(1,2) jump_params_reached(3) host_str
                 zero_fps_env_answers(3-7) truediv_zero, of sg_version world0]
  from a b show ?thesis
    by (simp add: world0_def str_exn_exec_env_of)
qed

text \<open>
  C5, amended: when \<^verbatim>\<open>jump_to_frame\<close> runs, the tag lookup returns an object whose
  director has a timeline asset, the frame number converts to a float, the rate of the
  timeline is a finite float other than zero, and the editor accepts the calls, the
  method sets the time of the director to the quotient of the two floats, that is the
  double nearest to the quotient of the real numbers and not the quotient of the
  integers, and returns. At frame 48 and 24 frames per second the time is 2.0; at frame
  49 it is the double nearest to 49/24.
\<close>

theorem execute_action_sets_time:
  assumes "py_getitem params ''frame_number'' = Inr v"
    and "py_int v = Inr n"
    and "py_get params ''scene_path'' = Inr p"
    and "to_host_string p = Inr scene_path"
    and "OpenScene (editor env) scene_path = None"
    and "ExecuteMenuItem (editor env) ''Window/Sequencing/Timeline'' = None"
    and "py_getitem params ''main_timeline_tag'' = Inr t"
    and "to_host_string t = Inr tag"
    and "FindGameObjectsWithTag (editor env) tag = Inr (g # gs)"
    and "GetComponent (editor env) g = Inr (Some d)"
    and "set_activeObject (editor env) d = None"
    and "get_playableAsset (editor env) d = Inr (Some timeline)"
    and "get_fps (editor env) timeline = Inr (Finite fps)"
    and "fps \<noteq> 0"
    and "float_of_int n = Inr a"
    and "set_time (editor env) d (float_of_real (a / fps)) = None"
  shows "execute_action env ''jump_to_frame'' params sg_data w =
    (Inr (),
     w\<lparr>logged := logged w @ [Debug ''jump_to_frame'' params sg_data],
       host_calls := host_calls w
         @ [Call_OpenScene scene_path,
            Call_ExecuteMenuItem ''Window/Sequencing/Timeline'',
            Call_FindGameObjectsWithTag tag,
            Call_GetComponent g,
            Call_set_activeObject d,
            Call_get_playableAsset d,
            Call_get_fps timeline,
            Call_set_time d (float_of_real (a / fps))]\<rparr>)"
  using assms(9-16)
  by (simp add: execute_reached [OF assms(1-8)] find_main_director_def try_body_def
        py_truediv_def Let_def call_def logger_def)

theorem execute_action_sets_time_witness:
  "execute_action (exec_env_of studio_host) ''jump_to_frame'' jump_params sg_version world0 =
     (Inr (),
      \<lparr> logged = [Debug ''jump_to_frame'' jump_params sg_version],
        host_calls =
          [Call_OpenScene (Some ''Assets/Scenes/Shot010.unity''),
           Call_ExecuteMenuItem ''Window/Sequencing/Timeline'',
           Call_FindGameObjectsWithTag (Some ''MainTimeline''),
           Call_GetComponent (GameObject 1),
           Call_set_activeObject (PlayableDirector 1),
           Call_get_playableAsset (PlayableDirector 1),
           Call_get_fps (TimelineAsset 1),
           Call_set_time (PlayableDirector 1) (Finite 2)] \<rparr>)
   \<and> host_calls (snd (execute_action (exec_env_of studio_host) ''jump_to_frame''
                         odd_frame_params sg_version world0)) =
          [Call_OpenScene (Some ''Assets/Scenes/Shot010.unity''),
           Call_ExecuteMenuItem ''Window/Sequencing/Timeline'',
           Call_FindGameObjectsWithTag (Some ''MainTimeline''),
           Call_GetComponent (GameObject 1),
           Call_set_activeObject (PlayableDirector 1),
           Call_get_playableAsset (PlayableDirector 1),
           Call_get_fps (TimelineAsset 1),
           Call_set_time (PlayableDirector 1)
             (Finite (4597424619607381 / 2251799813685248))]"
proof -
  note a = execute_action_sets_time
             [OF jump_params_reached(1) py_int_48 jump_params_reached(2) host_str
                 studio_env_answers(1,2) jump_params_reached(3) host_str
                 studio_env_answers(3-7) fps_nonzero float_of_int_48 studio_env_answers(8),
              of sg_version world0]
  note b = execute_action_sets_time
             [OF odd_frame_params_reached(1) py_int.simps(1) odd_frame_params_reached(2)
                 host_str studio_env_answers(1,2) odd_frame_params_reached(3) host_str
                 studio_env_answers(3-7) fps_nonzero float_of_int_49 studio_env_answers(8),
              of sg_version world0]
  from a b show ?thesis
    by (simp only: float_of_real_2 float_of_real_49_24) (simp add: world0_def)
qed

text \<open>
  C6: when \<^verbatim>\<open>params['frame_number']\<close> is not parseable as an integer, the exception that
  \<^verbatim>\<open>int\<close> raises leaves \<^verbatim>\<open>execute_action\<close>.
\<close>

theorem execute_action_parse_error_propagates:
  assumes "py_getitem params ''frame_number'' = Inr v"
    and "py_int v = Inl e"
  shows "fst (execute_action env ''jump_to_frame'' params sg_data w) = Inl e"
  using assms by (simp add: execute_action_def jump_to_frame_def)

theorem execute_action_parse_error_propagates_witness:
  "py_int (PyStr ''forty-eight'') = Inl ValueError
   \<and> fst (execute_action (exec_env_of studio_host) ''jump_to_frame'' bad_frame_params
            sg_version world0) = Inl ValueError"
proof -
  have g: "py_getitem bad_frame_params ''frame_number'' = Inr (PyStr ''forty-eight'')"
    by (simp add: bad_frame_params_def)
  from execute_action_parse_error_propagates [OF g py_int_forty_eight] py_int_forty_eight show ?thesis by simp
qed

text \<open>
  C9: the parse of the frame number comes before every call into the editor. When it
  fails the method has written its debug message and nothing else: the calls made to
  the editor are those made before, no scene is opened and no panel is shown.
\<close>

theorem execute_action_parse_error_no_host_call:
  assumes "py_getitem params ''frame_number'' = Inr v"
    and "py_int v = Inl e"
  shows "execute_action env ''jump_to_frame'' params sg_data w =
           (Inl e, w\<lparr>logged := logged w @ [Debug ''jump_to_frame'' params sg_data]\<rparr>)
         \<and> host_calls (snd (execute_action env ''jump_to_frame'' params sg_data w))
             = host_calls w"
  using assms by (simp add: execute_action_def jump_to_frame_def logger_def)

theorem execute_action_parse_error_no_host_call_witness:
  "execute_action (exec_env_of studio_host) ''jump_to_frame'' bad_frame_params sg_version world0
     = (Inl ValueError,
        \<lparr> logged = [Debug ''jump_to_frame'' bad_frame_params sg_version], host_calls = [] \<rparr>)"
proof -
  have g: "py_getitem bad_frame_params ''frame_number'' = Inr (PyStr ''forty-eight'')"
    by (simp add: bad_frame_params_def)
  from execute_action_parse_error_no_host_call [OF g py_int_forty_eight, of "exec_env_of studio_host" sg_version world0]
  show ?thesis by (simp add: world0_def)
qed

text \<open>
  C8: for a name other than \<^verbatim>\<open>jump_to_frame\<close> the method is the base-class method,
  applied to the same name, params and entity, after the debug message; the calls
  into the editor at the time the base class takes over are those made before.
\<close>

theorem execute_action_delegates:
  assumes "name \<noteq> ''jump_to_frame''"
  shows "execute_action env name params sg_data w =
           super_execute_action env name params sg_data
             (w\<lparr>logged := logged w @ [Debug name params sg_data]\<rparr>)
         \<and> host_calls (w\<lparr>logged := logged w @ [Debug name params sg_data]\<rparr>) = host_calls w"
  using assms by (simp add: execute_action_def logger_def)

theorem execute_action_delegates_witness:
  "execute_action (exec_env_of studio_host) ''add_to_playlist'' PyNone sg_version world0 =
     (Inr (),
      \<lparr> logged = [Debug ''add_to_playlist'' PyNone sg_version, Error ''super: add_to_playlist''],
        host_calls = [] \<rparr>)"
proof -
  have n: "''add_to_playlist'' \<noteq> ''jump_to_frame''" by simp
  from execute_action_delegates [OF n, of "exec_env_of studio_host" PyNone sg_version world0]
  show ?thesis
    by (simp add: exec_env_of_def recording_super_def logger_def world0_def)
qed

text \<open>
  C10: only element 0 of the tag lookup is asked for its director. When it has none,
  the method logs the message that asks for a tagged director and returns, whatever
  the other tagged objects carry; no call is made on them.
\<close>

theorem execute_action_first_object_only:
  assumes "py_getitem params ''frame_number'' = Inr v"
    and "py_int v = Inr n"
    and "py_get params ''scene_path'' = Inr p"
    and "to_host_string p = Inr scene_path"
    and "OpenScene (editor env) scene_path = None"
    and "ExecuteMenuItem (editor env) ''Window/Sequencing/Timeline'' = None"
    and "py_getitem params ''main_timeline_tag'' = Inr t"
    and "to_host_string t = Inr tag"
    and "FindGameObjectsWithTag (editor env) tag = Inr (g # gs)"
    and "GetComponent (editor env) g = Inr None"
  shows "execute_action env ''jump_to_frame'' params sg_data w =
    (Inr (),
     w\<lparr>logged := logged w
         @ [Debug ''jump_to_frame'' params sg_data,
            Error (please_tag_message (format_arg tag))],
       host_calls := host_calls w
         @ [Call_OpenScene scene_path,
            Call_ExecuteMenuItem ''Window/Sequencing/Timeline'',
            Call_FindGameObjectsWithTag tag,
            Call_GetComponent g]\<rparr>)"
  using assms(9-10)
  by (simp add: execute_reached [OF assms(1-8)] find_main_director_def
        Let_def call_def logger_def)

lemma director_second_env_answers:
  "OpenScene (editor (exec_env_of host_director_second)) p = None"
  "ExecuteMenuItem (editor (exec_env_of host_director_second)) i = None"
  "FindGameObjectsWithTag (editor (exec_env_of host_director_second)) (Some ''MainTimeline'')
     = Inr [GameObject 1, GameObject 2]"
  "GetComponent (editor (exec_env_of host_director_second)) (GameObject 1) = Inr None"
  by (simp_all add: exec_env_of_def host_director_second_def studio_host_def)

lemma director_second_has_director:
  "GetComponent host_director_second (GameObject 2) = Inr (Some (PlayableDirector 2))"
  by (simp add: host_director_second_def studio_host_def)

theorem execute_action_first_object_only_witness:
  "GetComponent host_director_second (GameObject 2) = Inr (Some (PlayableDirector 2))
   \<and> execute_action (exec_env_of host_director_second) ''jump_to_frame'' jump_params
       sg_version world0 =
     (Inr (),
      \<lparr> logged =
          [Debug ''jump_to_frame'' jump_params sg_version,
           Error (please_tag_message ''MainTimeline'')],
        host_calls =
          [Call_OpenScene (Some ''Assets/Scenes/Shot010.unity''),
           Call_ExecuteMenuItem ''Window/Sequencing/Timeline'',
           Call_FindGameObjectsWithTag (Some ''MainTimeline''),
           Call_GetComponent (GameObject 1)] \<rparr>)"
proof -
  have a: "execute_action (exec_env_of host_director_second) ''jump_to_frame'' jump_params
       sg_version world0 =
    (Inr (),
     world0\<lparr>logged := logged world0
         @ [Debug ''jump_to_frame'' jump_params sg_version,
            Error (please_tag_message (format_arg (Some ''MainTimeline'')))],
       host_calls := host_calls world0
         @ [Call_OpenScene (Some ''Assets/Scenes/Shot010.unity''),
            Call_ExecuteMenuItem ''Window/Sequencing/Timeline'',
            Call_FindGameObjectsWithTag (Some ''MainTimeline''),
            Call_GetComponent (GameObject 1)]\<rparr>)"
    by (rule execute_action_first_object_only [OF jump_params_reached(1) py_int_48 jump_params_reached(2) host_str
                   director_second_env_answers(1,2) jump_params_reached(3) host_str
                   director_second_env_answers(3,4)])
  from a show ?thesis
    by (simp add: world0_def director_second_has_director)
qed

lemma messages_differ: "no_asset_message a \<noteq> please_tag_message b"
  by (simp add: no_asset_message_def please_tag_message_def)

lemma untagged_params_reached:
  "py_getitem untagged_params ''frame_number'' = Inr (PyStr ''48'')"
  "py_get untagged_params ''scene_path'' = Inr (PyStr ''Assets/Scenes/Shot010.unity'')"
  "py_getitem untagged_params ''main_timeline_tag'' = Inl (KeyError ''main_timeline_tag'')"
  by (simp_all add: untagged_params_def dict_get_def)

text \<open>
  C7, as stated: from the director lookup on, \<^verbatim>\<open>execute_action\<close> never raises. The
  lookup itself (lines 116 to 118) stands before the \<^verbatim>\<open>try\<close> statement. An exception of
  \<^verbatim>\<open>FindGameObjectsWithTag\<close>, here for a tag the project does not define, leaves the
  method after the scene was opened; so does the \<^verbatim>\<open>KeyError\<close> of
  \<^verbatim>\<open>params['main_timeline_tag']\<close> when the params have no such key.
\<close>

theorem execute_action_never_raises_counterexample:
  "execute_action (exec_env_of host_undefined_tag) ''jump_to_frame'' jump_params sg_version
       world0 =
     (Inl (HostException ''Tag: MainTimeline is not defined.''),
      \<lparr> logged = [Debug ''jump_to_frame'' jump_params sg_version],
        host_calls =
          [Call_OpenScene (Some ''Assets/Scenes/Shot010.unity''),
           Call_ExecuteMenuItem ''Window/Sequencing/Timeline'',
           Call_FindGameObjectsWithTag (Some ''MainTimeline'')] \<rparr>)
   \<and> execute_action (exec_env_of studio_host) ''jump_to_frame'' untagged_params sg_version
       world0 =
     (Inl (KeyError ''main_timeline_tag''),
      \<lparr> logged = [Debug ''jump_to_frame'' untagged_params sg_version],
        host_calls =
          [Call_OpenScene (Some ''Assets/Scenes/Shot010.unity''),
           Call_ExecuteMenuItem ''Window/Sequencing/Timeline''] \<rparr>)"
proof -
  have a: "jump_to_frame (exec_env_of host_undefined_tag) jump_params w =
     (Inl (HostException ''Tag: MainTimeline is not defined.''),
      call (Call_FindGameObjectsWithTag (Some ''MainTimeline''))
        (call (Call_ExecuteMenuItem ''Window/Sequencing/Timeline'')
          (call (Call_OpenScene (Some ''Assets/Scenes/Shot010.unity'')) w)))" for w
    by (simp add: jump_to_frame_def jump_params_reached py_int_48 exec_env_of_def
          host_undefined_tag_def studio_host_def find_main_director_def Let_def
          del: py_int.simps)
  have b: "jump_to_frame (exec_env_of studio_host) untagged_params w =
     (Inl (KeyError ''main_timeline_tag''),
        (call (Call_ExecuteMenuItem ''Window/Sequencing/Timeline'')
          (call (Call_OpenScene (Some ''Assets/Scenes/Shot010.unity'')) w)))" for w
    by (simp add: jump_to_frame_def untagged_params_reached py_int_48 exec_env_of_def
          studio_host_def Let_def del: py_int.simps)
  show ?thesis
    by (simp add: execute_action_def a b Let_def call_def logger_def world0_def)
qed

text \<open>
  C7, amended: once the tag lookup and the component lookup have returned,
  \<^verbatim>\<open>execute_action\<close> never raises. With no director it logs the message that asks for
  a tagged director. With a director whose timeline asset is unset it logs a different
  message, which names the object, and makes no call that sets the time. An exception
  raised in the body of the \<^verbatim>\<open>try\<close> statement (selecting the director, reading the
  timeline, setting the time) is caught and logged with its text, and the method
  returns.
\<close>

theorem execute_action_after_lookup:
  assumes "py_getitem params ''frame_number'' = Inr v"
    and "py_int v = Inr n"
    and "py_get params ''scene_path'' = Inr p"
    and "to_host_string p = Inr scene_path"
    and "OpenScene (editor env) scene_path = None"
    and "ExecuteMenuItem (editor env) ''Window/Sequencing/Timeline'' = None"
    and "py_getitem params ''main_timeline_tag'' = Inr t"
    and "to_host_string t = Inr tag"
    and "find_main_director (editor env) tag
           (w\<lparr>logged := logged w @ [Debug ''jump_to_frame'' params sg_data],
              host_calls := host_calls w
                @ [Call_OpenScene scene_path,
                   Call_ExecuteMenuItem ''Window/Sequencing/Timeline'']\<rparr>)
         = (Inr (game_objects, main_director), w3)"
  shows "fst (execute_action env ''jump_to_frame'' params sg_data w) = Inr ()
    \<and> (main_director = None \<longrightarrow>
         snd (execute_action env ''jump_to_frame'' params sg_data w)
           = w3\<lparr>logged := logged w3 @ [Error (please_tag_message (format_arg tag))]\<rparr>)
    \<and> (\<forall>d g gs a.
         main_director = Some d \<and> game_objects = g # gs
         \<and> set_activeObject (editor env) d = None
         \<and> get_playableAsset (editor env) d = Inr None
         \<and> get_name (editor env) g = Inr a \<longrightarrow>
         snd (execute_action env ''jump_to_frame'' params sg_data w)
           = w3\<lparr>logged := logged w3 @ [Error (no_asset_message a)],
                host_calls := host_calls w3
                  @ [Call_set_activeObject d, Call_get_playableAsset d, Call_get_name g]\<rparr>
         \<and> no_asset_message a \<noteq> please_tag_message (format_arg tag))
    \<and> (\<forall>d e w4.
         main_director = Some d
         \<and> try_body (editor env) n game_objects d w3 = (Inl e, w4) \<longrightarrow>
         snd (execute_action env ''jump_to_frame'' params sg_data w)
           = w4\<lparr>logged := logged w4
                  @ [Error (''Unable to Jump to Frame: '' @ str_exn env e)]\<rparr>)"
proof -
  note r = execute_reached [OF assms(1-8), of sg_data w]
  have 1: "fst (execute_action env ''jump_to_frame'' params sg_data w) = Inr ()"
    by (cases main_director) (simp_all add: r assms(9) split: prod.splits sum.splits)
  have 2: "main_director = None \<longrightarrow>
         snd (execute_action env ''jump_to_frame'' params sg_data w)
           = w3\<lparr>logged := logged w3 @ [Error (please_tag_message (format_arg tag))]\<rparr>"
    by (simp add: r assms(9) logger_def)
  have 3: "\<forall>d g gs a.
         main_director = Some d \<and> game_objects = g # gs
         \<and> set_activeObject (editor env) d = None
         \<and> get_playableAsset (editor env) d = Inr None
         \<and> get_name (editor env) g = Inr a \<longrightarrow>
         snd (execute_action env ''jump_to_frame'' params sg_data w)
           = w3\<lparr>logged := logged w3 @ [Error (no_asset_message a)],
                host_calls := host_calls w3
                  @ [Call_set_activeObject d, Call_get_playableAsset d, Call_get_name g]\<rparr>
         \<and> no_asset_message a \<noteq> please_tag_message (format_arg tag)"
    by (simp add: r assms(9) try_body_def Let_def call_def logger_def messages_differ)
  have 4: "\<forall>d e w4.
         main_director = Some d
         \<and> try_body (editor env) n game_objects d w3 = (Inl e, w4) \<longrightarrow>
         snd (execute_action env ''jump_to_frame'' params sg_data w)
           = w4\<lparr>logged := logged w4
                  @ [Error (''Unable to Jump to Frame: '' @ str_exn env e)]\<rparr>"
    by (simp add: r assms(9) logger_def)
  from 1 2 3 4 show ?thesis by blast
qed


lemma no_asset_env_answers:
  "OpenScene (editor (exec_env_of host_no_asset)) p = None"
  "ExecuteMenuItem (editor (exec_env_of host_no_asset)) i = None"
  "set_activeObject (editor (exec_env_of host_no_asset)) d = None"
  "get_playableAsset (editor (exec_env_of host_no_asset)) d = Inr None"
  "get_name (editor (exec_env_of host_no_asset)) g = Inr ''Director''"
  by (simp_all add: exec_env_of_def host_no_asset_def studio_host_def)

lemma no_asset_env_lookup:
  "find_main_director (editor (exec_env_of host_no_asset)) (Some ''MainTimeline'') w =
     (Inr ([GameObject 1, GameObject 2], Some (PlayableDirector 1)),
      w\<lparr>host_calls := host_calls w
          @ [Call_FindGameObjectsWithTag (Some ''MainTimeline''),
             Call_GetComponent (GameObject 1)]\<rparr>)"
  by (simp add: find_main_director_def exec_env_of_def host_no_asset_def studio_host_def
        Let_def call_def)

lemma no_objects_env_answers:
  "OpenScene (editor (exec_env_of host_no_objects)) p = None"
  "ExecuteMenuItem (editor (exec_env_of host_no_objects)) i = None"
  by (simp_all add: exec_env_of_def host_no_objects_def studio_host_def)

lemma no_objects_env_lookup:
  "find_main_director (editor (exec_env_of host_no_objects)) (Some ''MainTimeline'') w =
     (Inr ([], None),
      w\<lparr>host_calls := host_calls w
          @ [Call_FindGameObjectsWithTag (Some ''MainTimeline'')]\<rparr>)"
  by (simp add: find_main_director_def exec_env_of_def host_no_objects_def studio_host_def
        Let_def call_def)

lemma selection_fails_env_answers:
  "OpenScene (editor (exec_env_of host_selection_fails)) p = None"
  "ExecuteMenuItem (editor (exec_env_of host_selection_fails)) i = None"
  "str_exn (exec_env_of host_selection_fails) (HostException m) = m"
  by (simp_all add: exec_env_of_def host_selection_fails_def studio_host_def exn_text_def)

lemma selection_fails_env_lookup:
  "find_main_director (editor (exec_env_of host_selection_fails)) (Some ''MainTimeline'') w =
     (Inr ([GameObject 1, GameObject 2], Some (PlayableDirector 1)),
      w\<lparr>host_calls := host_calls w
          @ [Call_FindGameObjectsWithTag (Some ''MainTimeline''),
             Call_GetComponent (GameObject 1)]\<rparr>)"
  by (simp add: find_main_director_def exec_env_of_def host_selection_fails_def studio_host_def
        Let_def call_def)

lemma selection_fails_env_try:
  "try_body (editor (exec_env_of host_selection_fails)) n gos (PlayableDirector 1) w =
     (Inl (HostException ''Selection is locked''),
      w\<lparr>host_calls := host_calls w @ [Call_set_activeObject (PlayableDirector 1)]\<rparr>)"
  by (simp add: try_body_def exec_env_of_def host_selection_fails_def studio_host_def
        Let_def call_def)

theorem execute_action_after_lookup_witness:
  "execute_action (exec_env_of host_no_asset) ''jump_to_frame'' jump_params sg_version world0
     = (Inr (),
        \<lparr> logged = [Debug ''jump_to_frame'' jump_params sg_version,
                    Error (no_asset_message ''Director'')],
          host_calls =
            [Call_OpenScene (Some ''Assets/Scenes/Shot010.unity''),
             Call_ExecuteMenuItem ''Window/Sequencing/Timeline'',
             Call_FindGameObjectsWithTag (Some ''MainTimeline''),
             Call_GetComponent (GameObject 1),
             Call_set_activeObject (PlayableDirector 1),
             Call_get_playableAsset (PlayableDirector 1),
             Call_get_name (GameObject 1)] \<rparr>)
   \<and> execute_action (exec_env_of host_no_objects) ''jump_to_frame'' jump_params sg_version
       world0
     = (Inr (),
        \<lparr> logged = [Debug ''jump_to_frame'' jump_params sg_version,
                    Error (please_tag_message ''MainTimeline'')],
          host_calls =
            [Call_OpenScene (Some ''Assets/Scenes/Shot010.unity''),
             Call_ExecuteMenuItem ''Window/Sequencing/Timeline'',
             Call_FindGameObjectsWithTag (Some ''MainTimeline'')] \<rparr>)
   \<and> execute_action (exec_env_of host_selection_fails) ''jump_to_frame'' jump_params
       sg_version world0
     = (Inr (),
        \<lparr> logged = [Debug ''jump_to_frame'' jump_params sg_version,
                    Error ''Unable to Jump to Frame: Selection is locked''],
          host_calls =
            [Call_OpenScene (Some ''Assets/Scenes/Shot010.unity''),
             Call_ExecuteMenuItem ''Window/Sequencing/Timeline'',
             Call_FindGameObjectsWithTag (Some ''MainTimeline''),
             Call_GetComponent (GameObject 1),
             Call_set_activeObject (PlayableDirector 1)] \<rparr>)"
proof -
  note a = execute_action_after_lookup [OF jump_params_reached(1) py_int_48 jump_params_reached(2) host_str
                no_asset_env_answers(1,2) jump_params_reached(3) host_str
                no_asset_env_lookup, of sg_version world0]
  from a have a1: "fst (execute_action (exec_env_of host_no_asset) ''jump_to_frame''
                          jump_params sg_version world0) = Inr ()"
    by (rule conjunct1)
  from a [THEN conjunct2, THEN conjunct2, THEN conjunct1, rule_format,
          of "PlayableDirector 1" "GameObject 1" "[GameObject 2]" "''Director''"]
  have a2: "snd (execute_action (exec_env_of host_no_asset) ''jump_to_frame''
                   jump_params sg_version world0)
     = \<lparr> logged = [Debug ''jump_to_frame'' jump_params sg_version,
                  Error (no_asset_message ''Director'')],
         host_calls =
            [Call_OpenScene (Some ''Assets/Scenes/Shot010.unity''),
             Call_ExecuteMenuItem ''Window/Sequencing/Timeline'',
             Call_FindGameObjectsWithTag (Some ''MainTimeline''),
             Call_GetComponent (GameObject 1),
             Call_set_activeObject (PlayableDirector 1),
             Call_get_playableAsset (PlayableDirector 1),
             Call_get_name (GameObject 1)] \<rparr>"
    by (simp add: no_asset_env_answers world0_def)
  note b = execute_action_after_lookup [OF jump_params_reached(1) py_int_48 jump_params_reached(2) host_str
                no_objects_env_answers(1,2) jump_params_reached(3) host_str
                no_objects_env_lookup, of sg_version world0]
  from b have b1: "fst (execute_action (exec_env_of host_no_objects) ''jump_to_frame''
                          jump_params sg_version world0) = Inr ()"
    by (rule conjunct1)
  from b [THEN conjunct2, THEN conjunct1]
  have b2: "snd (execute_action (exec_env_of host_no_objects) ''jump_to_frame''
                   jump_params sg_version world0)
     = \<lparr> logged = [Debug ''jump_to_frame'' jump_params sg_version,
                  Error (please_tag_message ''MainTimeline'')],
         host_calls =
            [Call_OpenScene (Some ''Assets/Scenes/Shot010.unity''),
             Call_ExecuteMenuItem ''Window/Sequencing/Timeline'',
             Call_FindGameObjectsWithTag (Some ''MainTimeline'')] \<rparr>"
    by (simp add: world0_def)
  note c = execute_action_after_lookup [OF jump_params_reached(1) py_int_48 jump_params_reached(2) host_str
                selection_fails_env_answers(1,2) jump_params_reached(3) host_str
                selection_fails_env_lookup, of sg_version world0]
  from c have c1: "fst (execute_action (exec_env_of host_selection_fails) ''jump_to_frame''
                          jump_params sg_version world0) = Inr ()"
    by (rule conjunct1)
  from c [THEN conjunct2, THEN conjunct2, THEN conjunct2, rule_format,
          of "PlayableDirector 1" "HostException ''Selection is locked''",
          OF conjI [OF refl selection_fails_env_try]]
  have c2: "snd (execute_action (exec_env_of host_selection_fails) ''jump_to_frame''
                   jump_params sg_version world0)
     = \<lparr> logged = [Debug ''jump_to_frame'' jump_params sg_version,
                  Error ''Unable to Jump to Frame: Selection is locked''],
         host_calls =
            [Call_OpenScene (Some ''Assets/Scenes/Shot010.unity''),
             Call_ExecuteMenuItem ''Window/Sequencing/Timeline'',
             Call_FindGameObjectsWithTag (Some ''MainTimeline''),
             Call_GetComponent (GameObject 1),
             Call_set_activeObject (PlayableDirector 1)] \<rparr>"
    by (simp add: selection_fails_env_answers world0_def)
  from a1 a2 b1 b2 c1 c2 show ?thesis
    by (simp add: prod_eq_iff)
qed

end
